theory Spec2Isabelle
  imports Main
begin

section \<open>Go runtime and library functions used by tickets.go\<close>

text \<open>
  Go strings are byte sequences; \<open>string\<close> (a list of 8-bit characters) models them
  byte for byte. The two delimiters the program looks for are the bytes 0x2F (forward
  slash) and 0x5C (backslash); neither occurs inside a multi-byte UTF-8 sequence.
\<close>

definition slash :: string where
  "slash = ''/''"

definition backslash :: string where
  "backslash = [CHR 0x5C]"

text \<open>
  \<open>strings.LastIndex(s, substr)\<close>: the index of the last instance of \<open>substr\<close> in
  \<open>s\<close>, or \<open>-1\<close> when there is none. The last instance in \<open>x # xs\<close> is the last one in
  \<open>xs\<close> shifted by one when \<open>xs\<close> has one, and otherwise position 0 when \<open>substr\<close>
  starts the string.
\<close>

fun LastIndex :: "string \<Rightarrow> string \<Rightarrow> int" where
  "LastIndex [] substr = (if substr = [] then 0 else - 1)"
| "LastIndex (x # xs) substr =
     (let r = LastIndex xs substr
      in if r \<noteq> - 1 then r + 1
         else if take (length substr) (x # xs) = substr then 0
         else - 1)"

text \<open>
  Slice expressions \<open>s[:j]\<close> and \<open>s[i:]\<close>. Go panics with "slice bounds out of range"
  unless \<open>0 \<le> j \<le> len(s)\<close> (respectively \<open>0 \<le> i \<le> len(s)\<close>); the panic is \<open>None\<close>.
\<close>

definition slice_to :: "string \<Rightarrow> int \<Rightarrow> string option" where
  "slice_to s j = (if 0 \<le> j \<and> j \<le> int (length s) then Some (take (nat j) s) else None)"

definition slice_from :: "string \<Rightarrow> int \<Rightarrow> string option" where
  "slice_from s i = (if 0 \<le> i \<and> i \<le> int (length s) then Some (drop (nat i) s) else None)"

section \<open>The name normalizer\<close>

text \<open>
  \<^verbatim>\<open>
  func cleanTestName(path string) string {
      if unixIdx := strings.LastIndex(path, "/"); unixIdx != -1 {
          if unixIdx == len(path)-1 {
              return cleanTestName(path[:len(path)-1])
          }
          return path[unixIdx+1:]
      }
      if windowsIdx := strings.LastIndex(path, `\`); windowsIdx != -1 {
          if windowsIdx == len(path)-1 {
              return cleanTestName(path[:len(path)-1])
          }
          return path[windowsIdx+1:]
      }
      return path
  }
  \<close>
  The result is \<open>None\<close> when a slice expression panics.
\<close>

function cleanTestName :: "string \<Rightarrow> string option" where
  "cleanTestName path =
     (let unixIdx = LastIndex path slash in
      if unixIdx \<noteq> - 1 then
        (if unixIdx = int (length path) - 1 then
           (case slice_to path (int (length path) - 1) of
              None \<Rightarrow> None
            | Some p \<Rightarrow> cleanTestName p)
         else slice_from path (unixIdx + 1))
      else
        (let windowsIdx = LastIndex path backslash in
         if windowsIdx \<noteq> - 1 then
           (if windowsIdx = int (length path) - 1 then
              (case slice_to path (int (length path) - 1) of
                 None \<Rightarrow> None
               | Some p \<Rightarrow> cleanTestName p)
            else slice_from path (windowsIdx + 1))
         else Some path))"
  by pat_completeness auto
termination
  by (relation "measure length") (auto simp: slice_to_def split: if_splits)

declare cleanTestName.simps [simp del]

section \<open>Formatting and joining\<close>

text \<open>
  \<open>strings.Join(elems, sep)\<close>.
\<close>

fun Join :: "string list \<Rightarrow> string \<Rightarrow> string" where
  "Join [] sep = []"
| "Join [x] sep = x"
| "Join (x # y # ys) sep = x @ sep @ Join (y # ys) sep"

text \<open>
  \<open>fmt.Sprintf(format, a...)\<close> for string operands (an \<open>error\<close> operand is passed as
  the text of its \<open>Error()\<close> method, which is what \<open>%v\<close> prints for it). Every format
  string of the program consists of literal bytes and the plain verb \<open>%v\<close>. The model
  also covers \<open>%s\<close>, \<open>%%\<close>, a missing operand, a verb that is wrong for a string, a
  trailing \<open>%\<close> and surplus operands; flags, width, precision, argument indexes and the
  other verbs that accept a string (\<open>q\<close>, \<open>x\<close>, \<open>X\<close>) are not modelled.
\<close>

fun Sprintf :: "string \<Rightarrow> string list \<Rightarrow> string" where
  "Sprintf [] [] = []"
| "Sprintf [] (a # as) =
     ''%!(EXTRA '' @ Join (map (\<lambda>x. ''string='' @ x) (a # as)) '', '' @ '')''"
| "Sprintf [c] args =
     (if c = CHR ''%'' then ''%!(NOVERB)'' @ Sprintf [] args else c # Sprintf [] args)"
| "Sprintf (c # d # format) args =
     (if c \<noteq> CHR ''%'' then c # Sprintf (d # format) args
      else if d = CHR ''%'' then CHR ''%'' # Sprintf format args
      else (case args of
              [] \<Rightarrow> ''%!'' @ [d] @ ''(MISSING)'' @ Sprintf format []
            | a # as \<Rightarrow>
                if d = CHR ''v'' \<or> d = CHR ''s'' then a @ Sprintf format as
                else ''%!'' @ [d] @ ''(string='' @ a @ '')'' @ Sprintf format as))"

section \<open>Data\<close>

text \<open>
  An \<open>error\<close> value is identified by the text its \<open>Error()\<close> method returns.
\<close>

datatype error = Error string

fun Error_text :: "error \<Rightarrow> string" where
  "Error_text (Error msg) = msg"

text \<open>
  The fields of \<open>model.TestResult\<close>, \<open>model.Task\<close>, \<open>user.DBUser\<close> and
  \<open>thirdparty.JiraCreateTicketResponse\<close> that tickets.go reads. These types are declared
  in the evergreen packages; only the fields used here are represented.
\<close>

record DBUser =
  Id :: string

record TestResult =
  TestFile :: string
  URL :: string

record Task =
  Id :: string
  DisplayName :: string
  BuildVariant :: string
  Project :: string
  TestResults :: "TestResult list"

record JiraCreateTicketResponse =
  Key :: string

text \<open>\<open>jiraTestFailure\<close> contains the required fields for generating a failure report.\<close>

record jiraTestFailure =
  Name :: string
  URL :: string
  HistoryURL :: string

definition FailingTasksField :: string where
  "FailingTasksField = ''customfield_12950''"

definition UIRoot :: string where
  "UIRoot = ''https://evergreen.mongodb.com''"

section \<open>History URL and summary\<close>

text \<open>
  \<^verbatim>\<open>
  func historyURL(t *model.Task, testName string) string {
      return fmt.Sprintf("%v/task_history/%v/%v#%v=fail",
          UIRoot, t.Project, t.DisplayName, testName)
  }
  \<close>
\<close>

definition historyURL :: "Task \<Rightarrow> string \<Rightarrow> string" where
  "historyURL t testName =
     Sprintf ''%v/task_history/%v/%v#%v=fail'' [UIRoot, Project t, DisplayName t, testName]"

text \<open>
  \<^verbatim>\<open>
  func getSummary(taskName string, tests []jiraTestFailure) string {
      switch {
      case len(tests) == 0:
          return fmt.Sprintf("%v failure", taskName)
      case len(tests) > 4:
          return fmt.Sprintf("%v failures", taskName)
      default:
          names := []string{}
          for _, t := range tests {
              names = append(names, t.Name)
          }
          return strings.Join(names, ", ")
      }
  }
  \<close>
\<close>

definition getSummary :: "string \<Rightarrow> jiraTestFailure list \<Rightarrow> string" where
  "getSummary taskName tests =
     (if length tests = 0 then Sprintf ''%v failure'' [taskName]
      else if length tests > 4 then Sprintf ''%v failures'' [taskName]
      else (let names = foldl (\<lambda>names t. names @ [Name t]) [] tests
            in Join names '', ''))"

section \<open>The description template\<close>

text \<open>
  The part of \<open>text/template\<close> that \<open>DescriptionTemplate\<close> exercises. A parsed template
  is a list of nodes: literal text, an action printing a chain of fields of dot
  (\<open>{{.A.B}}\<close>), and a range over such a chain (\<open>{{range .A}}...{{end}}\<close>, without an
  else branch). The data handed to \<open>Execute\<close> is seen through reflection as strings,
  slices and structs.
\<close>

datatype tvalue =
    VString string
  | VSlice "tvalue list"
  | VStruct "(string \<times> tvalue) list"

datatype node =
    TextNode string
  | ActionNode "string list"
  | RangeNode "string list" "node list"

text \<open>The source text of a node, as \<open>parse.Node.String()\<close> gives it back.\<close>

fun String_node :: "node \<Rightarrow> string" where
  "String_node (TextNode s) = s"
| "String_node (ActionNode ident) = ''{{'' @ concat (map (\<lambda>f. ''.'' @ f) ident) @ ''}}''"
| "String_node (RangeNode ident body) =
     ''{{range '' @ concat (map (\<lambda>f. ''.'' @ f) ident) @ ''}}''
       @ concat (map String_node body) @ ''{{end}}''"

text \<open>
  Evaluating a field of a value fails unless the value is a struct that has the field.
  (The text of the engine's error, which also carries a position, is abbreviated.)
\<close>

fun evalField :: "tvalue \<Rightarrow> string \<Rightarrow> error + tvalue" where
  "evalField (VStruct fs) fieldName =
     (case map_of fs fieldName of
        None \<Rightarrow> Inl (Error (''can not evaluate field '' @ fieldName))
      | Some v \<Rightarrow> Inr v)"
| "evalField v fieldName = Inl (Error (''can not evaluate field '' @ fieldName))"

fun evalFieldChain :: "tvalue \<Rightarrow> string list \<Rightarrow> error + tvalue" where
  "evalFieldChain v [] = Inr v"
| "evalFieldChain v (f # fs) =
     (case evalField v f of Inl err \<Rightarrow> Inl err | Inr v' \<Rightarrow> evalFieldChain v' fs)"

text \<open>
  A value is printed with \<open>fmt.Fprint\<close>: a string as it is, without escaping; a slice as
  its elements between brackets; a struct as its field values between braces.
\<close>

fun printValue :: "tvalue \<Rightarrow> string" where
  "printValue (VString s) = s"
| "printValue (VSlice vs) = ''['' @ Join (map printValue vs) '' '' @ '']''"
| "printValue (VStruct fs) = ''{'' @ Join (map (\<lambda>(n, v). printValue v) fs) '' '' @ ''}''"

fun walk :: "node \<Rightarrow> tvalue \<Rightarrow> error + string"
  and walkList :: "node list \<Rightarrow> tvalue \<Rightarrow> error + string"
  and walkRange :: "node list \<Rightarrow> tvalue list \<Rightarrow> error + string"
where
  "walk (TextNode s) dot = Inr s"
| "walk (ActionNode ident) dot =
     (case evalFieldChain dot ident of
        Inl err \<Rightarrow> Inl err
      | Inr v \<Rightarrow> Inr (printValue v))"
| "walk (RangeNode ident body) dot =
     (case evalFieldChain dot ident of
        Inl err \<Rightarrow> Inl err
      | Inr (VSlice vs) \<Rightarrow> walkRange body vs
      | Inr _ \<Rightarrow> Inl (Error ''range can not iterate over value''))"
| "walkList [] dot = Inr []"
| "walkList (n # ns) dot =
     (case walk n dot of
        Inl err \<Rightarrow> Inl err
      | Inr out \<Rightarrow>
          (case walkList ns dot of
             Inl err \<Rightarrow> Inl err
           | Inr rest \<Rightarrow> Inr (out @ rest)))"
| "walkRange body [] = Inr []"
| "walkRange body (elem # elems) =
     (case walkList body elem of
        Inl err \<Rightarrow> Inl err
      | Inr out \<Rightarrow>
          (case walkRange body elems of
             Inl err \<Rightarrow> Inl err
           | Inr rest \<Rightarrow> Inr (out @ rest)))"

definition Execute :: "node list \<Rightarrow> tvalue \<Rightarrow> error + string" where
  "Execute tmpl data = walkList tmpl data"

text \<open>
  \<^verbatim>\<open>
  const DescriptionTemplateString = `
  h2. [{{.Task.DisplayName}} failed on {{.Task.BuildVariant}}|` + UIRoot + `/task/{{.Task.Id}}]

  {{range .Tests}}*{{.Name}}* - [Logs|{{.URL}}] | [History|{{.HistoryURL}}]

  {{end}}

  ~BF Ticket Generated by [~{{.UserId}}]~
  `
  var DescriptionTemplate = template.Must(template.New("Desc").Parse(DescriptionTemplateString))
  \<close>
\<close>

definition DescriptionTemplateString :: string where
  "DescriptionTemplateString =
     ''\<newline>h2. [{{.Task.DisplayName}} failed on {{.Task.BuildVariant}}|'' @ UIRoot @
     ''/task/{{.Task.Id}}]\<newline>\<newline>{{range .Tests}}*{{.Name}}* - [Logs|{{.URL}}] | [History|{{.HistoryURL}}]\<newline>\<newline>{{end}}\<newline>\<newline>\<newline>\<newline>~BF Ticket Generated by [~{{.UserId}}]~\<newline>''"

text \<open>The parse tree of \<open>DescriptionTemplateString\<close>.\<close>

definition DescriptionTemplate :: "node list" where
  "DescriptionTemplate =
     [TextNode ''\<newline>h2. ['',
      ActionNode [''Task'', ''DisplayName''],
      TextNode '' failed on '',
      ActionNode [''Task'', ''BuildVariant''],
      TextNode (''|'' @ UIRoot @ ''/task/''),
      ActionNode [''Task'', ''Id''],
      TextNode '']\<newline>\<newline>'',
      RangeNode [''Tests'']
        [TextNode ''*'',
         ActionNode [''Name''],
         TextNode ''* - [Logs|'',
         ActionNode [''URL''],
         TextNode ''] | [History|'',
         ActionNode [''HistoryURL''],
         TextNode '']\<newline>\<newline>''],
      TextNode ''\<newline>\<newline>\<newline>\<newline>~BF Ticket Generated by [~'',
      ActionNode [''UserId''],
      TextNode '']~\<newline>'']"

text \<open>How reflection sees the data of the program.\<close>

definition value_TestResult :: "TestResult \<Rightarrow> tvalue" where
  "value_TestResult r =
     VStruct [(''TestFile'', VString (TestFile r)), (''URL'', VString (TestResult.URL r))]"

definition value_Task :: "Task \<Rightarrow> tvalue" where
  "value_Task t =
     VStruct [(''Id'', VString (Task.Id t)),
              (''DisplayName'', VString (DisplayName t)),
              (''BuildVariant'', VString (BuildVariant t)),
              (''Project'', VString (Project t)),
              (''TestResults'', VSlice (map value_TestResult (TestResults t)))]"

definition value_jiraTestFailure :: "jiraTestFailure \<Rightarrow> tvalue" where
  "value_jiraTestFailure f =
     VStruct [(''Name'', VString (Name f)),
              (''URL'', VString (jiraTestFailure.URL f)),
              (''HistoryURL'', VString (HistoryURL f))]"

text \<open>
  \<^verbatim>\<open>
  func getDescription(t *model.Task, userId string, tests []jiraTestFailure) (string, error) {
      args := struct {
          Task   *model.Task
          UserId string
          Tests  []jiraTestFailure
      }{t, userId, tests}
      buf := &bytes.Buffer{}
      if err := DescriptionTemplate.Execute(buf, args); err != nil {
          return "", err
      }
      return buf.String(), nil
  }
  \<close>
  \<open>DescriptionTemplate\<close> is a package-level variable; its value when the function runs
  is the first argument of the model.
\<close>

definition getDescription ::
  "node list \<Rightarrow> Task \<Rightarrow> string \<Rightarrow> jiraTestFailure list \<Rightarrow> string \<times> error option" where
  "getDescription tmpl t userId tests =
     (let args = VStruct [(''Task'', value_Task t),
                          (''UserId'', VString userId),
                          (''Tests'', VSlice (map value_jiraTestFailure tests))]
      in case Execute tmpl args of
           Inl err \<Rightarrow> ([], Some err)
         | Inr buf \<Rightarrow> (buf, None))"

section \<open>The ticket-filing handler\<close>

text \<open>
  The JIRA request is a \<open>map[string]interface{}\<close>; the values the handler stores in it
  are strings, string slices and \<open>map[string]string\<close>.
\<close>

datatype field =
    FString string
  | FStrings "string list"
  | FMap "string \<rightharpoonup> string"

type_synonym request = "string \<rightharpoonup> field"

text \<open>The decoded request body. A decoding error is ignored and leaves the zero value.\<close>

record Input =
  TaskId :: string
  TestIds :: "string list"

text \<open>
  The collaborators of one invocation: the user \<open>plugin.GetUser(r)\<close> finds (\<open>nil\<close> is
  \<open>None\<close>), \<open>model.FindTask\<close>, and \<open>CreateTicket\<close> of the handler made by
  \<open>thirdparty.NewJiraHandler\<close> from the plugin options. The last two return a pointer
  and an error, as in Go.
\<close>

record Collaborators =
  GetUser :: "DBUser option"
  FindTask :: "string \<Rightarrow> Task option \<times> error option"
  CreateTicket :: "request \<Rightarrow> JiraCreateTicketResponse option \<times> error option"

text \<open>
  What an invocation does to the outside, in order: calls of the two collaborators, log
  lines, the response written with \<open>plugin.WriteJSON\<close>, and a run-time panic, which ends
  the handler.
\<close>

datatype Level = INFO | ERROR

datatype jdata = JString string | JTicket JiraCreateTicketResponse

datatype effect =
    CallFindTask string
  | CallCreateTicket request
  | Logf Level string
  | WriteJSON nat jdata
  | Panic

definition StatusOK :: nat where "StatusOK = 200"
definition StatusBadRequest :: nat where "StatusBadRequest = 400"
definition StatusUnauthorized :: nat where "StatusUnauthorized = 401"
definition StatusNotFound :: nat where "StatusNotFound = 404"
definition StatusInternalServerError :: nat where "StatusInternalServerError = 500"

text \<open>Reading a \<open>map[string]bool\<close>: a missing key gives \<open>false\<close>.\<close>

definition index_bool :: "(string \<rightharpoonup> bool) \<Rightarrow> string \<Rightarrow> bool" where
  "index_bool m k = (case m k of None \<Rightarrow> False | Some b \<Rightarrow> b)"

text \<open>
  \<^verbatim>\<open>
  testIds := map[string]bool{}
  for _, testId := range input.TestIds {
      testIds[testId] = true
  }
  \<close>
\<close>

definition selectedIds :: "string list \<Rightarrow> (string \<rightharpoonup> bool)" where
  "selectedIds ids = foldl (\<lambda>testIds testId. testIds(testId \<mapsto> True)) Map.empty ids"

text \<open>
  \<^verbatim>\<open>
  tests := []jiraTestFailure{}
  for _, test := range t.TestResults {
      if testIds[test.TestFile] {
          tests = append(tests, jiraTestFailure{
              Name:       cleanTestName(test.TestFile),
              URL:        test.URL,
              HistoryURL: historyURL(t, cleanTestName(test.TestFile)),
          })
      }
  }
  \<close>
  The loop over the results that remain, with the slice built so far; \<open>None\<close> when
  \<open>cleanTestName\<close> panics.
\<close>

fun failedTests ::
  "Task \<Rightarrow> (string \<rightharpoonup> bool) \<Rightarrow> TestResult list \<Rightarrow> jiraTestFailure list
     \<Rightarrow> jiraTestFailure list option" where
  "failedTests t testIds [] tests = Some tests"
| "failedTests t testIds (test # rest) tests =
     (if index_bool testIds (TestFile test) then
        (case cleanTestName (TestFile test) of
           None \<Rightarrow> None
         | Some name \<Rightarrow>
             (case cleanTestName (TestFile test) of
                None \<Rightarrow> None
              | Some name' \<Rightarrow>
                  failedTests t testIds rest
                    (tests @ [\<lparr>Name = name, URL = TestResult.URL test,
                               HistoryURL = historyURL t name'\<rparr>])))
      else failedTests t testIds rest tests)"

text \<open>
  \<open>fileTicket\<close> creates a JIRA ticket for a task with the given test failures. The model
  follows the handler statement by statement and returns its effects.
\<close>

definition fileTicket :: "Collaborators \<Rightarrow> node list \<Rightarrow> Input \<Rightarrow> effect list" where
  "fileTicket bbp tmpl input =
     (case GetUser bbp of
        None \<Rightarrow>
          [WriteJSON StatusUnauthorized (JString ''must be logged in to file a ticket'')]
      | Some u \<Rightarrow>
          (case FindTask bbp (TaskId input) of
             (t, Some err) \<Rightarrow>
               [CallFindTask (TaskId input),
                WriteJSON StatusInternalServerError (JString (Error_text err))]
           | (None, None) \<Rightarrow>
               [CallFindTask (TaskId input),
                WriteJSON StatusNotFound
                  (JString (Sprintf ''task not found for id %v'' [TaskId input]))]
           | (Some t, None) \<Rightarrow>
               (let testIds = selectedIds (TestIds input) in
                case failedTests t testIds (TestResults t) [] of
                  None \<Rightarrow> [CallFindTask (TaskId input), Panic]
                | Some tests \<Rightarrow>
                    (let request = Map.empty;
                         request = request(''project'' \<mapsto> FMap [''key'' \<mapsto> ''BF'']);
                         request = request(''summary'' \<mapsto> FString (getSummary (DisplayName t) tests));
                         request = request(FailingTasksField \<mapsto> FStrings [DisplayName t]);
                         request = request(''issuetype'' \<mapsto> FMap [''name'' \<mapsto> ''Build Failure'']);
                         request = request(''assignee'' \<mapsto> FMap [''name'' \<mapsto> DBUser.Id u]);
                         request = request(''reporter'' \<mapsto> FMap [''name'' \<mapsto> DBUser.Id u]);
                         (description, err) = getDescription tmpl t (DBUser.Id u) tests;
                         request = request(''description'' \<mapsto> FString description)
                     in case err of
                          Some err \<Rightarrow>
                            [CallFindTask (TaskId input),
                             WriteJSON StatusBadRequest
                               (JString (Sprintf ''error creating description: %v'' [Error_text err]))]
                        | None \<Rightarrow>
                            (case CreateTicket bbp request of
                               (result, Some err) \<Rightarrow>
                                 (let msg = Sprintf ''error creating JIRA ticket: %v'' [Error_text err]
                                  in [CallFindTask (TaskId input),
                                      Logf INFO (Sprintf ''Creating JIRA ticket for user %v'' [DBUser.Id u]),
                                      CallCreateTicket request,
                                      Logf ERROR msg,
                                      WriteJSON StatusBadRequest (JString msg)])
                             | (None, None) \<Rightarrow>
                                 [CallFindTask (TaskId input),
                                  Logf INFO (Sprintf ''Creating JIRA ticket for user %v'' [DBUser.Id u]),
                                  CallCreateTicket request,
                                  Panic]
                             | (Some result, None) \<Rightarrow>
                                 [CallFindTask (TaskId input),
                                  Logf INFO (Sprintf ''Creating JIRA ticket for user %v'' [DBUser.Id u]),
                                  CallCreateTicket request,
                                  Logf INFO (Sprintf ''Ticket %v successfully created'' [Key result]),
                                  WriteJSON StatusOK (JTicket result)])))))"

section \<open>The normalizer as the specification words it\<close>

text \<open>
  The specification's algorithm, written from its words and not from the code: locate
  the rightmost forward slash; if there is one and it is not the final character, return
  everything after it; if it is the final character, strip it and retry; if there is no
  forward slash, apply the same rule to the rightmost backslash; if neither delimiter is
  present, return the input unchanged.
\<close>

definition after_rightmost :: "char \<Rightarrow> string \<Rightarrow> string" where
  "after_rightmost c s = rev (takeWhile (\<lambda>x. x \<noteq> c) (rev s))"

function spec_normalize :: "string \<Rightarrow> string" where
  "spec_normalize s =
     (if CHR ''/'' \<in> set s then
        (if last s = CHR ''/'' then spec_normalize (butlast s)
         else after_rightmost (CHR ''/'') s)
      else if CHR 0x5C \<in> set s then
        (if last s = CHR 0x5C then spec_normalize (butlast s)
         else after_rightmost (CHR 0x5C) s)
      else s)"
  by pat_completeness auto
termination
  by (relation "measure length") (auto dest: length_pos_if_in_set)

declare spec_normalize.simps [simp del]

section \<open>Reading the effects of an invocation\<close>

text \<open>The three kinds of effect the properties of the handler speak about.\<close>

fun is_lookup :: "effect \<Rightarrow> bool" where
  "is_lookup (CallFindTask taskId) = True"
| "is_lookup e = False"

fun is_submission :: "effect \<Rightarrow> bool" where
  "is_submission (CallCreateTicket req) = True"
| "is_submission e = False"

fun is_response :: "effect \<Rightarrow> bool" where
  "is_response (WriteJSON code data) = True"
| "is_response e = False"

text \<open>
  The request as the assignments \<open>request[...] = ...\<close> of the handler leave it, in their
  order, given the description that \<open>getDescription\<close> returned.
\<close>

definition ticketRequest ::
  "Task \<Rightarrow> DBUser \<Rightarrow> jiraTestFailure list \<Rightarrow> string \<Rightarrow> request" where
  "ticketRequest t u tests description =
     Map.empty
       (''project'' \<mapsto> FMap [''key'' \<mapsto> ''BF''],
        ''summary'' \<mapsto> FString (getSummary (DisplayName t) tests),
        FailingTasksField \<mapsto> FStrings [DisplayName t],
        ''issuetype'' \<mapsto> FMap [''name'' \<mapsto> ''Build Failure''],
        ''assignee'' \<mapsto> FMap [''name'' \<mapsto> DBUser.Id u],
        ''reporter'' \<mapsto> FMap [''name'' \<mapsto> DBUser.Id u],
        ''description'' \<mapsto> FString description)"

section \<open>The end-to-end scenario of the specification\<close>

text \<open>
  Task "T" of project "P", build variant "V", id "123", with the results
  \<open>dir/foo.js\<close> (log \<open>u1\<close>) and \<open>bar.js\<close> (log \<open>u2\<close>); the caller selects both. The
  collaborators find the user and the task, and the tracker accepts the ticket.
\<close>

definition scenario_task :: Task where
  "scenario_task =
     \<lparr>Id = ''123'', DisplayName = ''T'', BuildVariant = ''V'', Project = ''P'',
      TestResults = [\<lparr>TestFile = ''dir/foo.js'', URL = ''u1''\<rparr>,
                     \<lparr>TestFile = ''bar.js'', URL = ''u2''\<rparr>]\<rparr>"

definition scenario_user :: DBUser where
  "scenario_user = \<lparr>DBUser.Id = ''bob''\<rparr>"

definition scenario_input :: Input where
  "scenario_input = \<lparr>TaskId = ''123'', TestIds = [''dir/foo.js'', ''bar.js'']\<rparr>"

definition scenario_tests :: "jiraTestFailure list" where
  "scenario_tests =
     [\<lparr>Name = ''foo.js'', URL = ''u1'',
       HistoryURL = ''https://evergreen.mongodb.com/task_history/P/T#foo.js=fail''\<rparr>,
      \<lparr>Name = ''bar.js'', URL = ''u2'',
       HistoryURL = ''https://evergreen.mongodb.com/task_history/P/T#bar.js=fail''\<rparr>]"

definition scenario_collaborators :: Collaborators where
  "scenario_collaborators =
     \<lparr>GetUser = Some scenario_user,
      FindTask = (\<lambda>taskId. if taskId = ''123'' then (Some scenario_task, None) else (None, None)),
      CreateTicket = (\<lambda>req. (Some \<lparr>Key = ''BF-1''\<rparr>, None))\<rparr>"

section \<open>Facts about \<open>LastIndex\<close> for a one-byte separator\<close>

lemma LastIndex_lower: "- 1 \<le> LastIndex s [c]"
  by (induction s) (auto simp: Let_def)

lemma LastIndex_none: "LastIndex s [c] = - 1 \<longleftrightarrow> c \<notin> set s"
proof (induction s)
  case Nil
  then show ?case by simp
next
  case (Cons x xs)
  have "- 1 \<le> LastIndex xs [c]" by (rule LastIndex_lower)
  with Cons show ?case by (auto simp: Let_def)
qed

lemma LastIndex_upper: "LastIndex s [c] < int (length s)"
  by (induction s) (auto simp: Let_def)

lemma LastIndex_final: "s \<noteq> [] \<Longrightarrow> LastIndex s [c] = int (length s) - 1 \<longleftrightarrow> last s = c"
proof (induction s)
  case Nil
  then show ?case by simp
next
  case (Cons x xs)
  show ?case
  proof (cases "xs = []")
    case True
    then show ?thesis by (auto simp: Let_def)
  next
    case False
    with Cons have IH: "LastIndex xs [c] = int (length xs) - 1 \<longleftrightarrow> last xs = c" by simp
    have up: "LastIndex xs [c] < int (length xs)" by (rule LastIndex_upper)
    from False have "0 < length xs" by simp
    with IH up False show ?thesis by (auto simp: Let_def)
  qed
qed

lemma LastIndex_drop:
  "c \<in> set s \<Longrightarrow> drop (nat (LastIndex s [c] + 1)) s = after_rightmost c s"
proof (induction s)
  case Nil
  then show ?case by simp
next
  case (Cons x xs)
  show ?case
  proof (cases "c \<in> set xs")
    case True
    then have r: "LastIndex xs [c] \<noteq> - 1" by (simp add: LastIndex_none)
    have lo: "- 1 \<le> LastIndex xs [c]" by (rule LastIndex_lower)
    from r lo have "nat (LastIndex xs [c] + 1 + 1) = Suc (nat (LastIndex xs [c] + 1))" by linarith
    moreover have "takeWhile (\<lambda>x. x \<noteq> c) (rev xs @ [x]) = takeWhile (\<lambda>x. x \<noteq> c) (rev xs)"
      using True by auto
    ultimately show ?thesis using Cons.IH [OF True] r
      by (simp add: after_rightmost_def Let_def)
  next
    case False
    with Cons.prems have xc: "x = c" by simp
    from False have "LastIndex xs [c] = - 1" by (simp add: LastIndex_none)
    moreover have "takeWhile (\<lambda>x. x \<noteq> c) (rev xs @ [c]) = rev xs"
      using False by (subst takeWhile_append2) auto
    ultimately show ?thesis using xc by (simp add: after_rightmost_def Let_def)
  qed
qed

section \<open>The normalizer, one step at a time\<close>

text \<open>
  With the index arithmetic and the slice bounds discharged, one step of \<open>cleanTestName\<close>
  depends only on which delimiters the path contains and on its last byte.
\<close>

lemma slice_to_butlast:
  "s \<noteq> [] \<Longrightarrow> slice_to s (int (length s) - 1) = Some (butlast s)"
  by (cases s rule: rev_cases) (auto simp: slice_to_def butlast_conv_take nat_diff_distrib')

lemma slice_from_after:
  "c \<in> set s \<Longrightarrow> slice_from s (LastIndex s [c] + 1) = Some (after_rightmost c s)"
proof -
  assume m: "c \<in> set s"
  have "- 1 \<le> LastIndex s [c]" by (rule LastIndex_lower)
  moreover have "LastIndex s [c] < int (length s)" by (rule LastIndex_upper)
  ultimately show ?thesis using LastIndex_drop [OF m] by (simp add: slice_from_def)
qed

lemma cleanTestName_step:
  "cleanTestName s =
     (if CHR ''/'' \<in> set s then
        (if last s = CHR ''/'' then cleanTestName (butlast s)
         else Some (after_rightmost (CHR ''/'') s))
      else if CHR 0x5C \<in> set s then
        (if last s = CHR 0x5C then cleanTestName (butlast s)
         else Some (after_rightmost (CHR 0x5C) s))
      else Some s)"
proof (cases "s = []")
  case True
  then show ?thesis by (simp add: cleanTestName.simps [of "[]"] slash_def backslash_def)
next
  case False
  note ne = False
  show ?thesis
  proof (cases "CHR ''/'' \<in> set s")
    case True
    then show ?thesis
      using ne LastIndex_none [of s "CHR ''/''"] LastIndex_final [OF ne, of "CHR ''/''"]
        slice_to_butlast [OF ne] slice_from_after [OF True]
      by (subst cleanTestName.simps) (simp add: slash_def Let_def)
  next
    case nos: False
    show ?thesis
    proof (cases "CHR 0x5C \<in> set s")
      case True
      then show ?thesis
        using ne nos LastIndex_none [of s "CHR ''/''"] LastIndex_none [of s "CHR 0x5C"]
          LastIndex_final [OF ne, of "CHR 0x5C"]
          slice_to_butlast [OF ne] slice_from_after [OF True]
        by (subst cleanTestName.simps) (simp add: slash_def backslash_def Let_def)
    next
      case False
      then show ?thesis
        using nos LastIndex_none [of s "CHR ''/''"] LastIndex_none [of s "CHR 0x5C"]
        by (subst cleanTestName.simps) (simp add: slash_def backslash_def Let_def)
    qed
  qed
qed

lemma trailing_induct:
  assumes "\<And>s. (s \<noteq> [] \<Longrightarrow> P (butlast s)) \<Longrightarrow> P s"
  shows "P s"
proof (induction s rule: length_induct)
  case (1 s)
  show ?case
  proof (rule assms)
    assume "s \<noteq> []"
    then have "length (butlast s) < length s" by simp
    with 1 show "P (butlast s)" by blast
  qed
qed

lemma cleanTestName_Nil: "cleanTestName [] = Some []"
  by (simp add: cleanTestName_step [of "[]"])

lemma cleanTestName_returns: "\<exists>r. cleanTestName s = Some r"
proof (induction s rule: trailing_induct)
  case (1 s)
  show ?case
  proof (cases "s = []")
    case True
    then show ?thesis by (simp add: cleanTestName_Nil)
  next
    case False
    with 1 have "\<exists>r. cleanTestName (butlast s) = Some r" by simp
    then show ?thesis by (subst cleanTestName_step) auto
  qed
qed

lemma takeWhile_shorter: "x \<in> set xs \<Longrightarrow> \<not> P x \<Longrightarrow> length (takeWhile P xs) < length xs"
  by (induction xs) auto

lemma after_rightmost_set: "set (after_rightmost c s) \<subseteq> set s"
  by (auto simp: after_rightmost_def dest: set_takeWhileD)

lemma after_rightmost_free: "c \<notin> set (after_rightmost c s)"
  by (auto simp: after_rightmost_def dest: set_takeWhileD)

lemma after_rightmost_shorter: "c \<in> set s \<Longrightarrow> length (after_rightmost c s) < length s"
  using takeWhile_shorter [of c "rev s" "\<lambda>x. x \<noteq> c"] by (simp add: after_rightmost_def)

lemma cleanTestName_cases:
  assumes "cleanTestName s = Some r"
  obtains (trailing) "s \<noteq> []" and "cleanTestName (butlast s) = Some r"
    | (unix) "CHR ''/'' \<in> set s" and "r = after_rightmost (CHR ''/'') s"
    | (windows) "CHR ''/'' \<notin> set s" and "CHR 0x5C \<in> set s" and "r = after_rightmost (CHR 0x5C) s"
    | (plain) "CHR ''/'' \<notin> set s" and "CHR 0x5C \<notin> set s" and "r = s"
proof (cases "CHR ''/'' \<in> set s \<and> last s = CHR ''/'' \<or>
    CHR ''/'' \<notin> set s \<and> CHR 0x5C \<in> set s \<and> last s = CHR 0x5C")
  case True
  then have "s \<noteq> []" by auto
  moreover from True assms have "cleanTestName (butlast s) = Some r"
    by (subst (asm) cleanTestName_step) (auto split: if_splits)
  ultimately show thesis by (rule trailing)
next
  case False
  with assms show thesis
    by (subst (asm) cleanTestName_step) (auto split: if_splits intro: unix windows plain)
qed

lemma cleanTestName_set: "cleanTestName s = Some r \<Longrightarrow> set r \<subseteq> set s"
proof (induction s arbitrary: r rule: trailing_induct)
  case (1 s)
  from 1(2) show ?case
  proof (cases rule: cleanTestName_cases)
    case trailing
    with 1(1) have "set r \<subseteq> set (butlast s)" by simp
    then show ?thesis by (auto dest: in_set_butlastD)
  qed (simp_all add: after_rightmost_set)
qed

lemma cleanTestName_no_slash: "cleanTestName s = Some r \<Longrightarrow> CHR ''/'' \<notin> set r"
proof (induction s arbitrary: r rule: trailing_induct)
  case (1 s)
  from 1(2) show ?case
  proof (cases rule: cleanTestName_cases)
    case trailing
    with 1(1) show ?thesis by simp
  next
    case unix
    then show ?thesis by (simp add: after_rightmost_free)
  next
    case windows
    then show ?thesis using after_rightmost_set [of "CHR 0x5C" s] by auto
  next
    case plain
    then show ?thesis by simp
  qed
qed

lemma cleanTestName_length: "cleanTestName s = Some r \<Longrightarrow> length r \<le> length s"
proof (induction s arbitrary: r rule: trailing_induct)
  case (1 s)
  from 1(2) show ?case
  proof (cases rule: cleanTestName_cases)
    case trailing
    with 1(1) have "length r \<le> length (butlast s)" by simp
    then show ?thesis by simp
  next
    case unix
    then show ?thesis using after_rightmost_shorter [of "CHR ''/''" s] by simp
  next
    case windows
    then show ?thesis using after_rightmost_shorter [of "CHR 0x5C" s] by simp
  next
    case plain
    then show ?thesis by simp
  qed
qed

lemma cleanTestName_shrinks:
  assumes "cleanTestName s = Some r" and "CHR ''/'' \<in> set s \<or> CHR 0x5C \<in> set s"
  shows "length r < length s"
  using assms(1)
proof (cases rule: cleanTestName_cases)
  case trailing
  then show ?thesis
    using cleanTestName_length [OF trailing(2)] by (cases s rule: rev_cases) auto
next
  case unix
  then show ?thesis by (simp add: after_rightmost_shorter)
next
  case windows
  then show ?thesis by (simp add: after_rightmost_shorter)
next
  case plain
  with assms(2) show ?thesis by simp
qed

lemma cleanTestName_plain:
  "CHR ''/'' \<notin> set s \<Longrightarrow> CHR 0x5C \<notin> set s \<Longrightarrow> cleanTestName s = Some s"
  by (subst cleanTestName_step) simp

lemma cleanTestName_rel_shorter: "cleanTestName_rel p s \<Longrightarrow> length p < length s"
  by (erule cleanTestName_rel.cases) (auto simp: slice_to_def split: if_splits)

lemma cleanTestName_dom_all: "cleanTestName_dom s"
proof (induction s rule: length_induct)
  case (1 s)
  show ?case
  proof (rule accpI)
    fix p
    assume "cleanTestName_rel p s"
    then have "length p < length s" by (rule cleanTestName_rel_shorter)
    with 1 show "cleanTestName_dom p" by blast
  qed
qed

section \<open>Facts about the pipeline\<close>

text \<open>
  The loops of the program as list functions: the summary collects the names with
  \<open>map\<close>, the range of the template concatenates one line per failure, the parse tree
  prints back as the template string, and the loop over the results is a \<open>filter\<close>
  followed by a \<open>map\<close>.
\<close>

lemma foldl_append_names: "foldl (\<lambda>names t. names @ [f t]) acc tests = acc @ map f tests"
  by (induction tests arbitrary: acc) auto

lemma walkRange_tests:
  "walkRange
     [TextNode ''*'', ActionNode [''Name''], TextNode ''* - [Logs|'', ActionNode [''URL''],
      TextNode ''] | [History|'', ActionNode [''HistoryURL''], TextNode '']\<newline>\<newline>'']
     (map value_jiraTestFailure tests)
   = Inr (concat (map (\<lambda>f. ''*'' @ Name f @ ''* - [Logs|'' @ jiraTestFailure.URL f
                           @ ''] | [History|'' @ HistoryURL f @ '']\<newline>\<newline>'') tests))"
  by (induction tests) (simp_all add: value_jiraTestFailure_def)

lemma DescriptionTemplate_source:
  "concat (map String_node DescriptionTemplate) = DescriptionTemplateString"
  by (simp add: DescriptionTemplate_def DescriptionTemplateString_def)

lemma index_bool_foldl:
  "index_bool (foldl (\<lambda>testIds testId. testIds(testId \<mapsto> True)) m ids) k
     \<longleftrightarrow> k \<in> set ids \<or> index_bool m k"
  by (induction ids arbitrary: m) (auto simp: index_bool_def)

lemma index_bool_selectedIds: "index_bool (selectedIds ids) k \<longleftrightarrow> k \<in> set ids"
  by (simp add: selectedIds_def index_bool_foldl) (simp add: index_bool_def)

lemma failedTests_eq:
  "failedTests t testIds results tests =
     Some (tests @ map (\<lambda>r. \<lparr>Name = the (cleanTestName (TestFile r)),
                               URL = TestResult.URL r,
                               HistoryURL = historyURL t (the (cleanTestName (TestFile r)))\<rparr>)
                       (filter (\<lambda>r. index_bool testIds (TestFile r)) results))"
proof (induction results arbitrary: tests)
  case Nil
  then show ?case by simp
next
  case (Cons test rest)
  obtain name where "cleanTestName (TestFile test) = Some name"
    using cleanTestName_returns by blast
  with Cons show ?case by simp
qed

lemma failedTests_selected:
  "failedTests t (selectedIds ids) results [] =
     Some (map (\<lambda>r. \<lparr>Name = the (cleanTestName (TestFile r)),
                       URL = TestResult.URL r,
                       HistoryURL = historyURL t (the (cleanTestName (TestFile r)))\<rparr>)
               (filter (\<lambda>r. TestFile r \<in> set ids) results))"
  by (simp add: failedTests_eq index_bool_selectedIds)

section \<open>The branches of the handler\<close>

text \<open>
  What \<open>fileTicket\<close> does in each of its branches, and a case rule that names them.
\<close>

lemma fileTicket_unauthenticated:
  "GetUser bbp = None \<Longrightarrow>
   fileTicket bbp tmpl input =
     [WriteJSON StatusUnauthorized (JString ''must be logged in to file a ticket'')]"
  by (simp add: fileTicket_def)

lemma fileTicket_lookup_failure:
  "GetUser bbp = Some u \<Longrightarrow> FindTask bbp (TaskId input) = (t, Some err) \<Longrightarrow>
   fileTicket bbp tmpl input =
     [CallFindTask (TaskId input),
      WriteJSON StatusInternalServerError (JString (Error_text err))]"
  by (simp add: fileTicket_def split: option.splits)

lemma fileTicket_not_found:
  "GetUser bbp = Some u \<Longrightarrow> FindTask bbp (TaskId input) = (None, None) \<Longrightarrow>
   fileTicket bbp tmpl input =
     [CallFindTask (TaskId input),
      WriteJSON StatusNotFound (JString (''task not found for id '' @ TaskId input))]"
  by (simp add: fileTicket_def)

lemma fileTicket_found:
  assumes "GetUser bbp = Some u" and "FindTask bbp (TaskId input) = (Some t, None)"
    and "failedTests t (selectedIds (TestIds input)) (TestResults t) [] = Some tests"
    and "getDescription tmpl t (DBUser.Id u) tests = (description, err)"
  shows "fileTicket bbp tmpl input =
     (case err of
        Some err \<Rightarrow>
          [CallFindTask (TaskId input),
           WriteJSON StatusBadRequest
             (JString (''error creating description: '' @ Error_text err))]
      | None \<Rightarrow>
          (case CreateTicket bbp (ticketRequest t u tests description) of
             (result, Some err) \<Rightarrow>
               [CallFindTask (TaskId input),
                Logf INFO (''Creating JIRA ticket for user '' @ DBUser.Id u),
                CallCreateTicket (ticketRequest t u tests description),
                Logf ERROR (''error creating JIRA ticket: '' @ Error_text err),
                WriteJSON StatusBadRequest
                  (JString (''error creating JIRA ticket: '' @ Error_text err))]
           | (None, None) \<Rightarrow>
               [CallFindTask (TaskId input),
                Logf INFO (''Creating JIRA ticket for user '' @ DBUser.Id u),
                CallCreateTicket (ticketRequest t u tests description),
                Panic]
           | (Some result, None) \<Rightarrow>
               [CallFindTask (TaskId input),
                Logf INFO (''Creating JIRA ticket for user '' @ DBUser.Id u),
                CallCreateTicket (ticketRequest t u tests description),
                Logf INFO (''Ticket '' @ Key result @ '' successfully created''),
                WriteJSON StatusOK (JTicket result)]))"
  using assms
  by (simp add: fileTicket_def Let_def ticketRequest_def split: option.splits prod.splits)

lemma status_distinct:
  "StatusUnauthorized \<noteq> StatusOK" "StatusInternalServerError \<noteq> StatusOK"
  "StatusNotFound \<noteq> StatusOK" "StatusBadRequest \<noteq> StatusOK"
  by (simp_all add: StatusOK_def StatusUnauthorized_def StatusInternalServerError_def
      StatusNotFound_def StatusBadRequest_def)

lemma failedTests_returns:
  "\<exists>tests. failedTests t testIds results [] = Some tests"
  by (simp add: failedTests_eq)

lemma fileTicket_cases:
  obtains
    (unauthenticated) "GetUser bbp = None"
      and "fileTicket bbp tmpl input =
        [WriteJSON StatusUnauthorized (JString ''must be logged in to file a ticket'')]"
  | (lookup_failure) u t err where "GetUser bbp = Some u"
      and "FindTask bbp (TaskId input) = (t, Some err)"
      and "fileTicket bbp tmpl input =
        [CallFindTask (TaskId input),
         WriteJSON StatusInternalServerError (JString (Error_text err))]"
  | (not_found) u where "GetUser bbp = Some u"
      and "FindTask bbp (TaskId input) = (None, None)"
      and "fileTicket bbp tmpl input =
        [CallFindTask (TaskId input),
         WriteJSON StatusNotFound (JString (''task not found for id '' @ TaskId input))]"
  | (render_failure) u t tests description err where "GetUser bbp = Some u"
      and "FindTask bbp (TaskId input) = (Some t, None)"
      and "failedTests t (selectedIds (TestIds input)) (TestResults t) [] = Some tests"
      and "getDescription tmpl t (DBUser.Id u) tests = (description, Some err)"
      and "fileTicket bbp tmpl input =
        [CallFindTask (TaskId input),
         WriteJSON StatusBadRequest
           (JString (''error creating description: '' @ Error_text err))]"
  | (submission_failure) u t tests description result err where "GetUser bbp = Some u"
      and "FindTask bbp (TaskId input) = (Some t, None)"
      and "failedTests t (selectedIds (TestIds input)) (TestResults t) [] = Some tests"
      and "getDescription tmpl t (DBUser.Id u) tests = (description, None)"
      and "CreateTicket bbp (ticketRequest t u tests description) = (result, Some err)"
      and "fileTicket bbp tmpl input =
        [CallFindTask (TaskId input),
         Logf INFO (''Creating JIRA ticket for user '' @ DBUser.Id u),
         CallCreateTicket (ticketRequest t u tests description),
         Logf ERROR (''error creating JIRA ticket: '' @ Error_text err),
         WriteJSON StatusBadRequest
           (JString (''error creating JIRA ticket: '' @ Error_text err))]"
  | (nil_result) u t tests description where "GetUser bbp = Some u"
      and "FindTask bbp (TaskId input) = (Some t, None)"
      and "failedTests t (selectedIds (TestIds input)) (TestResults t) [] = Some tests"
      and "getDescription tmpl t (DBUser.Id u) tests = (description, None)"
      and "CreateTicket bbp (ticketRequest t u tests description) = (None, None)"
      and "fileTicket bbp tmpl input =
        [CallFindTask (TaskId input),
         Logf INFO (''Creating JIRA ticket for user '' @ DBUser.Id u),
         CallCreateTicket (ticketRequest t u tests description),
         Panic]"
  | (created) u t tests description result where "GetUser bbp = Some u"
      and "FindTask bbp (TaskId input) = (Some t, None)"
      and "failedTests t (selectedIds (TestIds input)) (TestResults t) [] = Some tests"
      and "getDescription tmpl t (DBUser.Id u) tests = (description, None)"
      and "CreateTicket bbp (ticketRequest t u tests description) = (Some result, None)"
      and "fileTicket bbp tmpl input =
        [CallFindTask (TaskId input),
         Logf INFO (''Creating JIRA ticket for user '' @ DBUser.Id u),
         CallCreateTicket (ticketRequest t u tests description),
         Logf INFO (''Ticket '' @ Key result @ '' successfully created''),
         WriteJSON StatusOK (JTicket result)]"
proof (cases "GetUser bbp")
  case None
  then show thesis using fileTicket_unauthenticated unauthenticated by blast
next
  case (Some u)
  note user = Some
  obtain t e where found: "FindTask bbp (TaskId input) = (t, e)" by (cases "FindTask bbp (TaskId input)")
  show thesis
  proof (cases e)
    case (Some err)
    with user found show thesis using fileTicket_lookup_failure lookup_failure by blast
  next
    case None
    note noerr = None
    show thesis
    proof (cases t)
      case None
      with user found noerr show thesis using fileTicket_not_found not_found by blast
    next
      case (Some task)
      with found noerr have task: "FindTask bbp (TaskId input) = (Some task, None)" by simp
      obtain tests where tests:
        "failedTests task (selectedIds (TestIds input)) (TestResults task) [] = Some tests"
        using failedTests_returns by blast
      obtain description rerr where desc:
        "getDescription tmpl task (DBUser.Id u) tests = (description, rerr)"
        by (cases "getDescription tmpl task (DBUser.Id u) tests")
      note ft = fileTicket_found [OF user task tests desc]
      show thesis
      proof (cases rerr)
        case (Some err)
        show thesis
        proof (rule render_failure [OF user task tests])
          show "getDescription tmpl task (DBUser.Id u) tests = (description, Some err)"
            using desc Some by simp
        qed (use ft Some in simp)
      next
        case None
        note rendered = None
        obtain result serr where sub:
          "CreateTicket bbp (ticketRequest task u tests description) = (result, serr)"
          by (cases "CreateTicket bbp (ticketRequest task u tests description)")
        show thesis
        proof (cases serr)
          case (Some err)
          show thesis
          proof (rule submission_failure [OF user task tests])
            show "getDescription tmpl task (DBUser.Id u) tests = (description, None)"
              using desc rendered by simp
            show "CreateTicket bbp (ticketRequest task u tests description) = (result, Some err)"
              using sub Some by simp
          qed (use ft rendered sub Some in \<open>simp split: option.splits\<close>)
        next
          case None
          note nosub = None
          show thesis
          proof (cases result)
            case None
            show thesis
            proof (rule nil_result [OF user task tests])
              show "getDescription tmpl task (DBUser.Id u) tests = (description, None)"
                using desc rendered by simp
              show "CreateTicket bbp (ticketRequest task u tests description) = (None, None)"
                using sub nosub None by simp
            qed (use ft rendered sub nosub None in simp)
          next
            case (Some r)
            show thesis
            proof (rule created [OF user task tests])
              show "getDescription tmpl task (DBUser.Id u) tests = (description, None)"
                using desc rendered by simp
              show "CreateTicket bbp (ticketRequest task u tests description) = (Some r, None)"
                using sub nosub Some by simp
            qed (use ft rendered sub nosub Some in simp)
          qed
        qed
      qed
    qed
  qed
qed

lemma scenario_failedTests:
  "failedTests scenario_task (selectedIds (TestIds scenario_input)) (TestResults scenario_task) []
     = Some scenario_tests"
  by (simp add: scenario_task_def scenario_input_def scenario_tests_def selectedIds_def
      index_bool_def cleanTestName_step after_rightmost_def historyURL_def UIRoot_def)

lemma scenario_summary: "getSummary (DisplayName scenario_task) scenario_tests = ''foo.js, bar.js''"
  by (simp add: getSummary_def scenario_tests_def scenario_task_def)

lemma scenario_render_failure:
  "getDescription [ActionNode [''Missing'']] scenario_task (DBUser.Id scenario_user) scenario_tests
     = ([], Some (Error ''can not evaluate field Missing''))"
  by (simp add: getDescription_def Execute_def)

lemma scenario_render_ok:
  "getDescription [TextNode ''x''] scenario_task (DBUser.Id scenario_user) scenario_tests
     = (''x'', None)"
  by (simp add: getDescription_def Execute_def)

lemma getDescription_returns:
  "\<exists>description. getDescription DescriptionTemplate t userId tests = (description, None)"
  by (simp add: getDescription_def Execute_def DescriptionTemplate_def value_Task_def
      walkRange_tests)

section \<open>The claims of the specification\<close>

subsection \<open>C1: the history URL\<close>

text \<open>
  C1, as amended. For every task record \<open>t\<close> and every test name \<open>n\<close>, \<open>historyURL\<close>
  returns exactly \<open>UIRoot\<close> followed by \<open>/task_history/\<close>, the task's project, \<open>/\<close>, the
  task's display name, \<open>#\<close>, \<open>n\<close> and \<open>=fail\<close>. The test name occurs once, in the
  fragment; the format string has four verbs and no path segment for the test.
\<close>

theorem historyURL_shape:
  "historyURL t n =
     UIRoot @ ''/task_history/'' @ Project t @ ''/'' @ DisplayName t @ ''#'' @ n @ ''=fail''"
  by (simp add: historyURL_def)

text \<open>
  C1 as the specification states it puts \<open>/n\<close> between the display name and \<open>#\<close>.
  For task "T" of project "P" and the test \<open>foo.js\<close> the code returns
  \<open>.../task_history/P/T#foo.js=fail\<close>, which is not \<open>.../task_history/P/T/foo.js#foo.js=fail\<close>.
\<close>

theorem historyURL_no_test_segment:
  "historyURL \<lparr>Id = ''123'', DisplayName = ''T'', BuildVariant = ''V'', Project = ''P'',
                TestResults = []\<rparr> ''foo.js''
     = ''https://evergreen.mongodb.com/task_history/P/T#foo.js=fail''
   \<and> historyURL \<lparr>Id = ''123'', DisplayName = ''T'', BuildVariant = ''V'', Project = ''P'',
                  TestResults = []\<rparr> ''foo.js''
     \<noteq> UIRoot @ ''/task_history/'' @ ''P'' @ ''/'' @ ''T'' @ ''/'' @ ''foo.js'' @ ''#''
         @ ''foo.js'' @ ''=fail''"
  by (simp add: historyURL_def UIRoot_def)

subsection \<open>C2: idempotence of the normalizer\<close>

text \<open>
  C2, as amended. The normalizer returns a name \<open>r\<close> for every string \<open>s\<close>, and
  normalizing \<open>r\<close> again returns \<open>r\<close> exactly when \<open>r\<close> contains no backslash; that is
  the case in particular whenever \<open>s\<close> contains no forward slash or no backslash.
\<close>

theorem cleanTestName_idempotent_iff:
  "\<exists>r. cleanTestName s = Some r
     \<and> (cleanTestName r = Some r \<longleftrightarrow> CHR 0x5C \<notin> set r)
     \<and> (CHR ''/'' \<notin> set s \<or> CHR 0x5C \<notin> set s \<longrightarrow> cleanTestName r = Some r)"
proof -
  obtain r where r: "cleanTestName s = Some r" using cleanTestName_returns by blast
  have ns: "CHR ''/'' \<notin> set r" using r by (rule cleanTestName_no_slash)
  have iff: "cleanTestName r = Some r \<longleftrightarrow> CHR 0x5C \<notin> set r"
  proof
    assume fixed: "cleanTestName r = Some r"
    show "CHR 0x5C \<notin> set r"
    proof
      assume "CHR 0x5C \<in> set r"
      then have "length r < length r" using cleanTestName_shrinks [OF fixed] by simp
      then show False by simp
    qed
  next
    assume "CHR 0x5C \<notin> set r"
    with ns show "cleanTestName r = Some r" by (rule cleanTestName_plain)
  qed
  have "CHR 0x5C \<notin> set r" if "CHR ''/'' \<notin> set s \<or> CHR 0x5C \<notin> set s"
  proof (cases "CHR 0x5C \<in> set s")
    case False
    then show ?thesis using cleanTestName_set [OF r] by auto
  next
    case True
    with that have nos: "CHR ''/'' \<notin> set s" by simp
    show ?thesis using r nos True
    proof (induction s arbitrary: r rule: trailing_induct)
      case (1 s)
      from 1(2) show ?case
      proof (cases rule: cleanTestName_cases)
        case trailing
        have nb: "CHR ''/'' \<notin> set (butlast s)" using 1(3) by (auto dest: in_set_butlastD)
        show ?thesis
        proof (cases "CHR 0x5C \<in> set (butlast s)")
          case True
          with 1(1) trailing nb show ?thesis by simp
        next
          case False
          with nb have "cleanTestName (butlast s) = Some (butlast s)" by (rule cleanTestName_plain)
          with trailing(2) False show ?thesis by simp
        qed
      next
        case unix
        with 1(3) show ?thesis by simp
      next
        case windows
        then show ?thesis by (simp add: after_rightmost_free)
      next
        case plain
        with 1(4) show ?thesis by simp
      qed
    qed
  qed
  with r iff show ?thesis by auto
qed

text \<open>
  The amended C2 at \<open>a/b/\<close>, which has no backslash: its normalized name \<open>b\<close> is
  returned unchanged.
\<close>

theorem cleanTestName_idempotent_iff_witness:
  "CHR 0x5C \<notin> set ''a/b/'' \<and> cleanTestName ''a/b/'' = Some ''b'' \<and> cleanTestName ''b'' = Some ''b''"
  using cleanTestName_idempotent_iff [of "''a/b/''"]
  by (simp add: cleanTestName_step [of "''a/b/''"] cleanTestName_step [of "''a/b''"] after_rightmost_def)

text \<open>
  C2 as the specification states it fails on a forward-slash path whose last segment
  contains a backslash. Write \<open>b?c\<close> for \<open>b\<close>, a backslash and \<open>c\<close>: the path \<open>a/b?c\<close> is
  normalized to \<open>b?c\<close>, a string in the image of the normalizer, and normalizing
  \<open>b?c\<close> gives \<open>c\<close>.
\<close>

theorem cleanTestName_not_idempotent:
  "cleanTestName (''a/b'' @ backslash @ ''c'') = Some (''b'' @ backslash @ ''c'')
   \<and> cleanTestName (''b'' @ backslash @ ''c'') \<noteq> Some (''b'' @ backslash @ ''c'')"
  by (simp add: cleanTestName_step after_rightmost_def backslash_def)

subsection \<open>C3: cross-referencing the selection with the results\<close>

text \<open>
  C3. For every task record and every list of selected identifiers the handler's loop
  returns a list (it never fails) that matches, position by position, the task's test
  results filtered in their stored order to those whose raw identifier is in the
  selection: the name is the normalized raw identifier, the URL is the recorded one and
  the history URL is synthesized from the normalized name. A selected identifier that no
  result carries changes nothing, and neither does the order of the selection.
\<close>

theorem failedTests_filters_in_task_order:
  "(\<exists>tests. failedTests t (selectedIds ids) (TestResults t) [] = Some tests
      \<and> list_all2 (\<lambda>f r. cleanTestName (TestFile r) = Some (Name f)
                          \<and> jiraTestFailure.URL f = TestResult.URL r
                          \<and> HistoryURL f = historyURL t (Name f))
           tests (filter (\<lambda>r. TestFile r \<in> set ids) (TestResults t)))
   \<and> (\<forall>x. x \<notin> TestFile ` set (TestResults t) \<longrightarrow>
          failedTests t (selectedIds (x # ids)) (TestResults t) [] =
          failedTests t (selectedIds ids) (TestResults t) [])
   \<and> failedTests t (selectedIds (rev ids)) (TestResults t) [] =
       failedTests t (selectedIds ids) (TestResults t) []"
proof -
  have total: "\<forall>s. cleanTestName s = Some (the (cleanTestName s))"
    using cleanTestName_returns by (metis option.sel)
  have "list_all2 (\<lambda>f r. cleanTestName (TestFile r) = Some (Name f)
                          \<and> jiraTestFailure.URL f = TestResult.URL r
                          \<and> HistoryURL f = historyURL t (Name f))
     (map (\<lambda>r. \<lparr>Name = the (cleanTestName (TestFile r)),
                       URL = TestResult.URL r,
                       HistoryURL = historyURL t (the (cleanTestName (TestFile r)))\<rparr>)
               (filter (\<lambda>r. TestFile r \<in> set ids) (TestResults t)))
     (filter (\<lambda>r. TestFile r \<in> set ids) (TestResults t))"
    by (simp add: list_all2_map1 list_all2_same) (use total in blast)
  moreover have "filter (\<lambda>r. TestFile r \<in> set (x # ids)) (TestResults t)
      = filter (\<lambda>r. TestFile r \<in> set ids) (TestResults t)"
    if "x \<notin> TestFile ` set (TestResults t)" for x
    using that by (intro filter_cong) auto
  ultimately show ?thesis by (simp add: failedTests_selected)
qed

text \<open>
  C3 on the scenario task, with the selection in the opposite order of the results and
  with the identifier \<open>zzz\<close>, which no result carries.
\<close>

theorem failedTests_filters_in_task_order_witness:
  "failedTests
     \<lparr>Id = ''123'', DisplayName = ''T'', BuildVariant = ''V'', Project = ''P'',
        TestResults = [\<lparr>TestFile = ''dir/foo.js'', URL = ''u1''\<rparr>,
                       \<lparr>TestFile = ''bar.js'', URL = ''u2''\<rparr>]\<rparr>
     (selectedIds [''zzz'', ''bar.js'', ''dir/foo.js''])
     [\<lparr>TestFile = ''dir/foo.js'', URL = ''u1''\<rparr>, \<lparr>TestFile = ''bar.js'', URL = ''u2''\<rparr>] []
   = Some [\<lparr>Name = ''foo.js'', URL = ''u1'',
             HistoryURL = ''https://evergreen.mongodb.com/task_history/P/T#foo.js=fail''\<rparr>,
           \<lparr>Name = ''bar.js'', URL = ''u2'',
             HistoryURL = ''https://evergreen.mongodb.com/task_history/P/T#bar.js=fail''\<rparr>]"
proof -
  let ?t = "\<lparr>Id = ''123'', DisplayName = ''T'', BuildVariant = ''V'', Project = ''P'',
        TestResults = [\<lparr>TestFile = ''dir/foo.js'', URL = ''u1''\<rparr>,
                       \<lparr>TestFile = ''bar.js'', URL = ''u2''\<rparr>]\<rparr>"
  have absent: "''zzz'' \<notin> TestFile ` set (TestResults ?t)" by simp
  have "failedTests ?t (selectedIds [''zzz'', ''bar.js'', ''dir/foo.js'']) (TestResults ?t) []
      = failedTests ?t (selectedIds [''bar.js'', ''dir/foo.js'']) (TestResults ?t) []"
    using failedTests_filters_in_task_order [of ?t "[''bar.js'', ''dir/foo.js'']"] absent
    by blast
  moreover have "failedTests ?t (selectedIds [''bar.js'', ''dir/foo.js'']) (TestResults ?t) []
      = Some [\<lparr>Name = ''foo.js'', URL = ''u1'',
             HistoryURL = ''https://evergreen.mongodb.com/task_history/P/T#foo.js=fail''\<rparr>,
           \<lparr>Name = ''bar.js'', URL = ''u2'',
             HistoryURL = ''https://evergreen.mongodb.com/task_history/P/T#bar.js=fail''\<rparr>]"
    by (simp add: selectedIds_def index_bool_def cleanTestName_step after_rightmost_def
        historyURL_def UIRoot_def)
  ultimately show ?thesis by simp
qed

subsection \<open>C4: the summary\<close>

text \<open>
  C4. For every task display name \<open>T\<close> and list of failures, \<open>getSummary\<close> returns
  \<open>T failure\<close> when the list is empty, \<open>T failures\<close> when it has more than four
  elements, and otherwise the failures' names joined by a comma and a space in the order
  supplied, without the task name.
\<close>

theorem getSummary_policy:
  "(tests = [] \<longrightarrow> getSummary T tests = T @ '' failure'')
   \<and> (4 < length tests \<longrightarrow> getSummary T tests = T @ '' failures'')
   \<and> (1 \<le> length tests \<and> length tests \<le> 4 \<longrightarrow>
        getSummary T tests = Join (map Name tests) '', '')"
  by (auto simp: getSummary_def foldl_append_names)

text \<open>
  C4 on no failure, on five failures and on the two failures \<open>x\<close> and \<open>y\<close>.
\<close>

theorem getSummary_policy_witness:
  "getSummary ''T'' [] = ''T failure''
   \<and> getSummary ''T''
        [\<lparr>Name = ''a'', URL = ''u'', HistoryURL = ''h''\<rparr>,
         \<lparr>Name = ''b'', URL = ''u'', HistoryURL = ''h''\<rparr>,
         \<lparr>Name = ''c'', URL = ''u'', HistoryURL = ''h''\<rparr>,
         \<lparr>Name = ''d'', URL = ''u'', HistoryURL = ''h''\<rparr>,
         \<lparr>Name = ''e'', URL = ''u'', HistoryURL = ''h''\<rparr>] = ''T failures''
   \<and> getSummary ''T''
        [\<lparr>Name = ''x'', URL = ''u'', HistoryURL = ''h''\<rparr>,
         \<lparr>Name = ''y'', URL = ''u'', HistoryURL = ''h''\<rparr>] = ''x, y''"
  using getSummary_policy [of "[]" "''T''"]
    getSummary_policy [of "[\<lparr>Name = ''a'', URL = ''u'', HistoryURL = ''h''\<rparr>,
         \<lparr>Name = ''b'', URL = ''u'', HistoryURL = ''h''\<rparr>,
         \<lparr>Name = ''c'', URL = ''u'', HistoryURL = ''h''\<rparr>,
         \<lparr>Name = ''d'', URL = ''u'', HistoryURL = ''h''\<rparr>,
         \<lparr>Name = ''e'', URL = ''u'', HistoryURL = ''h''\<rparr>]" "''T''"]
    getSummary_policy [of "[\<lparr>Name = ''x'', URL = ''u'', HistoryURL = ''h''\<rparr>,
         \<lparr>Name = ''y'', URL = ''u'', HistoryURL = ''h''\<rparr>]" "''T''"]
  by simp

subsection \<open>C5: the normalizer follows the specified algorithm\<close>

text \<open>
  C5. On every string the code returns what the algorithm of the specification returns,
  and \<open>a/b/c\<close>, the same path with backslashes for the slashes, \<open>a/b/\<close> and the
  empty string are normalized to \<open>c\<close>, \<open>c\<close>, \<open>b\<close> and the empty string.
\<close>

theorem cleanTestName_follows_spec:
  "cleanTestName s = Some (spec_normalize s)
   \<and> cleanTestName ''a/b/c'' = Some ''c''
   \<and> cleanTestName (''a'' @ backslash @ ''b'' @ backslash @ ''c'') = Some ''c''
   \<and> cleanTestName ''a/b/'' = Some ''b''
   \<and> cleanTestName '''' = Some ''''"
proof -
  have "cleanTestName s = Some (spec_normalize s)"
  proof (induction s rule: spec_normalize.induct)
    case (1 s)
    then show ?case
      by (subst cleanTestName_step, subst spec_normalize.simps) simp
  qed
  moreover have "cleanTestName ''a/b/c'' = Some ''c''"
    by (simp add: cleanTestName_step after_rightmost_def)
  moreover have "cleanTestName (''a'' @ backslash @ ''b'' @ backslash @ ''c'') = Some ''c''"
    by (simp add: cleanTestName_step after_rightmost_def backslash_def)
  moreover have "cleanTestName ''a/b/'' = Some ''b''"
    by (simp add: cleanTestName_step after_rightmost_def)
  ultimately show ?thesis by (simp add: cleanTestName_Nil)
qed

subsection \<open>C6: the description\<close>

text \<open>
  C6. For every task record, user id and list of failures, rendering the description
  template succeeds and gives the heading (display name and build variant, linked to
  \<open>UIRoot/task/\<close> and the task id), then one line per failure in the order of the list
  (the name in bold, a \<open>Logs\<close> link to its URL and a \<open>History\<close> link to its history URL),
  then the attribution line naming the user; for the empty list, the heading and the
  attribution with nothing between them.
\<close>

theorem getDescription_renders:
  "getDescription DescriptionTemplate t userId tests =
     (''\<newline>h2. ['' @ DisplayName t @ '' failed on '' @ BuildVariant t @ ''|'' @ UIRoot
        @ ''/task/'' @ Task.Id t @ '']\<newline>\<newline>''
        @ concat (map (\<lambda>f. ''*'' @ Name f @ ''* - [Logs|'' @ jiraTestFailure.URL f
                           @ ''] | [History|'' @ HistoryURL f @ '']\<newline>\<newline>'') tests)
        @ ''\<newline>\<newline>\<newline>\<newline>~BF Ticket Generated by [~'' @ userId @ '']~\<newline>'',
      None)
   \<and> getDescription DescriptionTemplate t userId [] =
     (''\<newline>h2. ['' @ DisplayName t @ '' failed on '' @ BuildVariant t @ ''|'' @ UIRoot
        @ ''/task/'' @ Task.Id t @ '']\<newline>\<newline>''
        @ ''\<newline>\<newline>\<newline>\<newline>~BF Ticket Generated by [~'' @ userId @ '']~\<newline>'',
      None)"
  by (simp add: getDescription_def Execute_def DescriptionTemplate_def value_Task_def
      walkRange_tests)

subsection \<open>C7: errors are terminal\<close>

text \<open>
  C7. In every invocation the ticket submission is attempted at most once, the task is
  looked up at most once and at most one response is written, and a response is the last
  thing the invocation does. When no user is found, when the lookup fails, when the task
  is not found, when the description cannot be rendered and when the submission fails,
  the invocation ends with the corresponding response (401, 500, 404, 400, 400) and
  nothing is retried; a rendering error is answered with a bad request without any
  submission. A submission is only made after the description has been rendered, and
  with the request that contains it.
\<close>

theorem fileTicket_errors_are_terminal:
  "length (filter is_submission (fileTicket bbp tmpl input)) \<le> 1
   \<and> length (filter is_lookup (fileTicket bbp tmpl input)) \<le> 1
   \<and> length (filter is_response (fileTicket bbp tmpl input)) \<le> 1
   \<and> (\<forall>code data. WriteJSON code data \<in> set (fileTicket bbp tmpl input) \<longrightarrow>
          last (fileTicket bbp tmpl input) = WriteJSON code data)
   \<and> (GetUser bbp = None \<longrightarrow>
          fileTicket bbp tmpl input =
            [WriteJSON StatusUnauthorized (JString ''must be logged in to file a ticket'')])
   \<and> (\<forall>u t err. GetUser bbp = Some u \<and> FindTask bbp (TaskId input) = (t, Some err) \<longrightarrow>
          fileTicket bbp tmpl input =
            [CallFindTask (TaskId input),
             WriteJSON StatusInternalServerError (JString (Error_text err))])
   \<and> (\<forall>u. GetUser bbp = Some u \<and> FindTask bbp (TaskId input) = (None, None) \<longrightarrow>
          fileTicket bbp tmpl input =
            [CallFindTask (TaskId input),
             WriteJSON StatusNotFound (JString (''task not found for id '' @ TaskId input))])
   \<and> (\<forall>u t tests description err.
          GetUser bbp = Some u \<and> FindTask bbp (TaskId input) = (Some t, None)
          \<and> failedTests t (selectedIds (TestIds input)) (TestResults t) [] = Some tests
          \<and> getDescription tmpl t (DBUser.Id u) tests = (description, Some err) \<longrightarrow>
          fileTicket bbp tmpl input =
            [CallFindTask (TaskId input),
             WriteJSON StatusBadRequest
               (JString (''error creating description: '' @ Error_text err))])
   \<and> (\<forall>u t tests description result err.
          GetUser bbp = Some u \<and> FindTask bbp (TaskId input) = (Some t, None)
          \<and> failedTests t (selectedIds (TestIds input)) (TestResults t) [] = Some tests
          \<and> getDescription tmpl t (DBUser.Id u) tests = (description, None)
          \<and> CreateTicket bbp (ticketRequest t u tests description) = (result, Some err) \<longrightarrow>
          fileTicket bbp tmpl input =
            [CallFindTask (TaskId input),
             Logf INFO (''Creating JIRA ticket for user '' @ DBUser.Id u),
             CallCreateTicket (ticketRequest t u tests description),
             Logf ERROR (''error creating JIRA ticket: '' @ Error_text err),
             WriteJSON StatusBadRequest
               (JString (''error creating JIRA ticket: '' @ Error_text err))])
   \<and> (\<forall>req. CallCreateTicket req \<in> set (fileTicket bbp tmpl input) \<longrightarrow>
          (\<exists>u t tests description.
             GetUser bbp = Some u \<and> FindTask bbp (TaskId input) = (Some t, None)
             \<and> failedTests t (selectedIds (TestIds input)) (TestResults t) [] = Some tests
             \<and> getDescription tmpl t (DBUser.Id u) tests = (description, None)
             \<and> req = ticketRequest t u tests description))"
proof -
  have counts: "length (filter is_submission (fileTicket bbp tmpl input)) \<le> 1
      \<and> length (filter is_lookup (fileTicket bbp tmpl input)) \<le> 1
      \<and> length (filter is_response (fileTicket bbp tmpl input)) \<le> 1"
    by (cases bbp tmpl input rule: fileTicket_cases) simp_all
  have ends: "\<forall>code data. WriteJSON code data \<in> set (fileTicket bbp tmpl input) \<longrightarrow>
          last (fileTicket bbp tmpl input) = WriteJSON code data"
    by (cases bbp tmpl input rule: fileTicket_cases) simp_all
  have unauth: "GetUser bbp = None \<longrightarrow>
          fileTicket bbp tmpl input =
            [WriteJSON StatusUnauthorized (JString ''must be logged in to file a ticket'')]"
    by (simp add: fileTicket_unauthenticated)
  have lookup: "\<forall>u t err. GetUser bbp = Some u \<and> FindTask bbp (TaskId input) = (t, Some err) \<longrightarrow>
          fileTicket bbp tmpl input =
            [CallFindTask (TaskId input),
             WriteJSON StatusInternalServerError (JString (Error_text err))]"
    using fileTicket_lookup_failure by blast
  have missing: "\<forall>u. GetUser bbp = Some u \<and> FindTask bbp (TaskId input) = (None, None) \<longrightarrow>
          fileTicket bbp tmpl input =
            [CallFindTask (TaskId input),
             WriteJSON StatusNotFound (JString (''task not found for id '' @ TaskId input))]"
    using fileTicket_not_found by blast
  have render: "\<forall>u t tests description err.
          GetUser bbp = Some u \<and> FindTask bbp (TaskId input) = (Some t, None)
          \<and> failedTests t (selectedIds (TestIds input)) (TestResults t) [] = Some tests
          \<and> getDescription tmpl t (DBUser.Id u) tests = (description, Some err) \<longrightarrow>
          fileTicket bbp tmpl input =
            [CallFindTask (TaskId input),
             WriteJSON StatusBadRequest
               (JString (''error creating description: '' @ Error_text err))]"
    by (auto simp: fileTicket_found)
  have submit: "\<forall>u t tests description result err.
          GetUser bbp = Some u \<and> FindTask bbp (TaskId input) = (Some t, None)
          \<and> failedTests t (selectedIds (TestIds input)) (TestResults t) [] = Some tests
          \<and> getDescription tmpl t (DBUser.Id u) tests = (description, None)
          \<and> CreateTicket bbp (ticketRequest t u tests description) = (result, Some err) \<longrightarrow>
          fileTicket bbp tmpl input =
            [CallFindTask (TaskId input),
             Logf INFO (''Creating JIRA ticket for user '' @ DBUser.Id u),
             CallCreateTicket (ticketRequest t u tests description),
             Logf ERROR (''error creating JIRA ticket: '' @ Error_text err),
             WriteJSON StatusBadRequest
               (JString (''error creating JIRA ticket: '' @ Error_text err))]"
    by (auto simp: fileTicket_found split: option.splits)
  have after: "\<forall>req. CallCreateTicket req \<in> set (fileTicket bbp tmpl input) \<longrightarrow>
          (\<exists>u t tests description.
             GetUser bbp = Some u \<and> FindTask bbp (TaskId input) = (Some t, None)
             \<and> failedTests t (selectedIds (TestIds input)) (TestResults t) [] = Some tests
             \<and> getDescription tmpl t (DBUser.Id u) tests = (description, None)
             \<and> req = ticketRequest t u tests description)"
    by (cases bbp tmpl input rule: fileTicket_cases) auto
  from counts ends unauth lookup missing render submit after show ?thesis
    by (intro conjI) blast+
qed

text \<open>
  C7 on the scenario, with each collaborator failing in turn: no user, a failing lookup,
  an unknown task, a template that names a field the data does not have, and a tracker
  that rejects the ticket.
\<close>

theorem fileTicket_errors_are_terminal_witness:
  "fileTicket (scenario_collaborators\<lparr>GetUser := None\<rparr>) DescriptionTemplate scenario_input
     = [WriteJSON StatusUnauthorized (JString ''must be logged in to file a ticket'')]
   \<and> fileTicket (scenario_collaborators\<lparr>FindTask := \<lambda>taskId. (None, Some (Error ''lookup failed''))\<rparr>)
       DescriptionTemplate scenario_input
     = [CallFindTask ''123'', WriteJSON StatusInternalServerError (JString ''lookup failed'')]
   \<and> fileTicket (scenario_collaborators\<lparr>FindTask := \<lambda>taskId. (None, None)\<rparr>)
       DescriptionTemplate scenario_input
     = [CallFindTask ''123'', WriteJSON StatusNotFound (JString ''task not found for id 123'')]
   \<and> fileTicket scenario_collaborators [ActionNode [''Missing'']] scenario_input
     = [CallFindTask ''123'',
        WriteJSON StatusBadRequest
          (JString ''error creating description: can not evaluate field Missing'')]
   \<and> fileTicket (scenario_collaborators\<lparr>CreateTicket := \<lambda>req. (None, Some (Error ''rejected''))\<rparr>)
       [TextNode ''x''] scenario_input
     = [CallFindTask ''123'',
        Logf INFO ''Creating JIRA ticket for user bob'',
        CallCreateTicket (ticketRequest scenario_task scenario_user scenario_tests ''x''),
        Logf ERROR ''error creating JIRA ticket: rejected'',
        WriteJSON StatusBadRequest (JString ''error creating JIRA ticket: rejected'')]
   \<and> length (filter is_submission (fileTicket scenario_collaborators [TextNode ''x''] scenario_input)) \<le> 1"
proof -
  have tid: "TaskId scenario_input = ''123''"
    by (simp add: scenario_input_def)
  have "fileTicket (scenario_collaborators\<lparr>GetUser := None\<rparr>) DescriptionTemplate scenario_input
     = [WriteJSON StatusUnauthorized (JString ''must be logged in to file a ticket'')]"
    using fileTicket_errors_are_terminal
      [of "scenario_collaborators\<lparr>GetUser := None\<rparr>" DescriptionTemplate scenario_input]
    by simp
  moreover have "fileTicket
       (scenario_collaborators\<lparr>FindTask := \<lambda>taskId. (None, Some (Error ''lookup failed''))\<rparr>)
       DescriptionTemplate scenario_input
     = [CallFindTask ''123'', WriteJSON StatusInternalServerError (JString ''lookup failed'')]"
    using fileTicket_errors_are_terminal
      [of "scenario_collaborators\<lparr>FindTask := \<lambda>taskId. (None, Some (Error ''lookup failed''))\<rparr>"
          DescriptionTemplate scenario_input]
    by (simp add: tid scenario_collaborators_def)
  moreover have "fileTicket (scenario_collaborators\<lparr>FindTask := \<lambda>taskId. (None, None)\<rparr>)
       DescriptionTemplate scenario_input
     = [CallFindTask ''123'', WriteJSON StatusNotFound (JString ''task not found for id 123'')]"
    using fileTicket_errors_are_terminal
      [of "scenario_collaborators\<lparr>FindTask := \<lambda>taskId. (None, None)\<rparr>"
          DescriptionTemplate scenario_input]
    by (simp add: tid scenario_collaborators_def)
  moreover have "fileTicket scenario_collaborators [ActionNode [''Missing'']] scenario_input
     = [CallFindTask ''123'',
        WriteJSON StatusBadRequest
          (JString ''error creating description: can not evaluate field Missing'')]"
    using fileTicket_errors_are_terminal
      [of scenario_collaborators "[ActionNode [''Missing'']]" scenario_input,
        THEN conjunct2, THEN conjunct2, THEN conjunct2, THEN conjunct2, THEN conjunct2,
        THEN conjunct2, THEN conjunct2, THEN conjunct1, rule_format,
        of scenario_user scenario_task scenario_tests "[]" "Error ''can not evaluate field Missing''"]
      scenario_failedTests scenario_render_failure
    by (simp add: tid scenario_collaborators_def)
  moreover have "fileTicket
       (scenario_collaborators\<lparr>CreateTicket := \<lambda>req. (None, Some (Error ''rejected''))\<rparr>)
       [TextNode ''x''] scenario_input
     = [CallFindTask ''123'',
        Logf INFO ''Creating JIRA ticket for user bob'',
        CallCreateTicket (ticketRequest scenario_task scenario_user scenario_tests ''x''),
        Logf ERROR ''error creating JIRA ticket: rejected'',
        WriteJSON StatusBadRequest (JString ''error creating JIRA ticket: rejected'')]"
    using fileTicket_errors_are_terminal
      [of "scenario_collaborators\<lparr>CreateTicket := \<lambda>req. (None, Some (Error ''rejected''))\<rparr>"
          "[TextNode ''x'']" scenario_input,
        THEN conjunct2, THEN conjunct2, THEN conjunct2, THEN conjunct2, THEN conjunct2,
        THEN conjunct2, THEN conjunct2, THEN conjunct2, THEN conjunct1, rule_format,
        of scenario_user scenario_task scenario_tests "''x''" None "Error ''rejected''"]
      scenario_failedTests scenario_render_ok
    by (simp add: tid scenario_collaborators_def scenario_user_def)
  moreover have
    "length (filter is_submission (fileTicket scenario_collaborators [TextNode ''x''] scenario_input)) \<le> 1"
    using fileTicket_errors_are_terminal [of scenario_collaborators "[TextNode ''x'']" scenario_input]
    by blast
  ultimately show ?thesis by blast
qed

subsection \<open>C8: the fields of the request\<close>

text \<open>
  C8. Whenever an invocation succeeds (it answers 200), it has submitted exactly one
  request, and that request has exactly the keys \<open>project\<close>, \<open>summary\<close>,
  \<open>customfield_12950\<close>, \<open>issuetype\<close>, \<open>assignee\<close>, \<open>reporter\<close> and \<open>description\<close>, with
  the project key \<open>BF\<close>, the summary of the failures, the one-element list of the task's
  display name, the issue type \<open>Build Failure\<close>, the acting user as assignee and as
  reporter, and the rendered description.
\<close>

theorem fileTicket_request_fields:
  assumes "WriteJSON StatusOK data \<in> set (fileTicket bbp tmpl input)"
  shows "\<exists>u t tests description req.
     GetUser bbp = Some u \<and> FindTask bbp (TaskId input) = (Some t, None)
     \<and> failedTests t (selectedIds (TestIds input)) (TestResults t) [] = Some tests
     \<and> getDescription tmpl t (DBUser.Id u) tests = (description, None)
     \<and> filter is_submission (fileTicket bbp tmpl input) = [CallCreateTicket req]
     \<and> dom req = {''project'', ''summary'', ''customfield_12950'', ''issuetype'', ''assignee'',
                   ''reporter'', ''description''}
     \<and> req ''project'' = Some (FMap [''key'' \<mapsto> ''BF''])
     \<and> req ''summary'' = Some (FString (getSummary (DisplayName t) tests))
     \<and> req ''customfield_12950'' = Some (FStrings [DisplayName t])
     \<and> req ''issuetype'' = Some (FMap [''name'' \<mapsto> ''Build Failure''])
     \<and> req ''assignee'' = Some (FMap [''name'' \<mapsto> DBUser.Id u])
     \<and> req ''reporter'' = Some (FMap [''name'' \<mapsto> DBUser.Id u])
     \<and> req ''description'' = Some (FString description)"
proof (cases bbp tmpl input rule: fileTicket_cases)
  case (created u t tests description result)
  have dom: "dom (ticketRequest t u tests description) =
      {''project'', ''summary'', ''customfield_12950'', ''issuetype'', ''assignee'',
       ''reporter'', ''description''}"
    by (auto simp: ticketRequest_def FailingTasksField_def)
  have vals: "ticketRequest t u tests description ''project'' = Some (FMap [''key'' \<mapsto> ''BF''])"
    "ticketRequest t u tests description ''summary'' = Some (FString (getSummary (DisplayName t) tests))"
    "ticketRequest t u tests description ''customfield_12950'' = Some (FStrings [DisplayName t])"
    "ticketRequest t u tests description ''issuetype'' = Some (FMap [''name'' \<mapsto> ''Build Failure''])"
    "ticketRequest t u tests description ''assignee'' = Some (FMap [''name'' \<mapsto> DBUser.Id u])"
    "ticketRequest t u tests description ''reporter'' = Some (FMap [''name'' \<mapsto> DBUser.Id u])"
    "ticketRequest t u tests description ''description'' = Some (FString description)"
    by (simp_all add: ticketRequest_def FailingTasksField_def)
  have "filter is_submission (fileTicket bbp tmpl input) =
      [CallCreateTicket (ticketRequest t u tests description)]"
    using created(6) by simp
  with created(1-4) dom vals show ?thesis by blast
qed (use assms status_distinct in auto)

text \<open>
  C8 on the scenario: the invocation answers 200 with the ticket \<open>BF-1\<close>, and the one
  request it submitted has the summary \<open>foo.js, bar.js\<close>.
\<close>

theorem fileTicket_request_fields_witness:
  "WriteJSON StatusOK (JTicket \<lparr>Key = ''BF-1''\<rparr>)
     \<in> set (fileTicket scenario_collaborators DescriptionTemplate scenario_input)
   \<and> (\<exists>req. filter is_submission (fileTicket scenario_collaborators DescriptionTemplate scenario_input)
               = [CallCreateTicket req]
        \<and> dom req = {''project'', ''summary'', ''customfield_12950'', ''issuetype'', ''assignee'',
                      ''reporter'', ''description''}
        \<and> req ''project'' = Some (FMap [''key'' \<mapsto> ''BF''])
        \<and> req ''summary'' = Some (FString ''foo.js, bar.js'')
        \<and> req ''customfield_12950'' = Some (FStrings [''T''])
        \<and> req ''issuetype'' = Some (FMap [''name'' \<mapsto> ''Build Failure''])
        \<and> req ''assignee'' = Some (FMap [''name'' \<mapsto> ''bob''])
        \<and> req ''reporter'' = Some (FMap [''name'' \<mapsto> ''bob'']))"
proof -
  have user: "GetUser scenario_collaborators = Some scenario_user"
    by (simp add: scenario_collaborators_def)
  have task: "FindTask scenario_collaborators (TaskId scenario_input) = (Some scenario_task, None)"
    by (simp add: scenario_collaborators_def scenario_input_def)
  obtain description where desc:
    "getDescription DescriptionTemplate scenario_task (DBUser.Id scenario_user) scenario_tests
       = (description, None)"
    using getDescription_returns by blast
  have mem: "WriteJSON StatusOK (JTicket \<lparr>Key = ''BF-1''\<rparr>)
     \<in> set (fileTicket scenario_collaborators DescriptionTemplate scenario_input)"
    by (simp add: fileTicket_found [OF user task scenario_failedTests desc])
      (simp add: scenario_collaborators_def)
  from fileTicket_request_fields [OF mem] user task scenario_failedTests scenario_summary
  have "\<exists>req. filter is_submission (fileTicket scenario_collaborators DescriptionTemplate scenario_input)
               = [CallCreateTicket req]
        \<and> dom req = {''project'', ''summary'', ''customfield_12950'', ''issuetype'', ''assignee'',
                      ''reporter'', ''description''}
        \<and> req ''project'' = Some (FMap [''key'' \<mapsto> ''BF''])
        \<and> req ''summary'' = Some (FString ''foo.js, bar.js'')
        \<and> req ''customfield_12950'' = Some (FStrings [''T''])
        \<and> req ''issuetype'' = Some (FMap [''name'' \<mapsto> ''Build Failure''])
        \<and> req ''assignee'' = Some (FMap [''name'' \<mapsto> ''bob''])
        \<and> req ''reporter'' = Some (FMap [''name'' \<mapsto> ''bob''])"
    by (auto simp: scenario_task_def scenario_user_def)
  with mem show ?thesis by simp
qed

subsection \<open>C9: the normalizer is total\<close>

text \<open>
  C9. On every string the normalizer returns a name: the string is in the domain on
  which the recursion terminates, and no slice expression panics. Every recursive call
  the function makes on a string is on a strictly shorter string. The empty string is
  normalized to the empty string.
\<close>

theorem cleanTestName_total:
  "(\<exists>r. cleanTestName s = Some r)
   \<and> cleanTestName_dom s
   \<and> (\<forall>p. cleanTestName_rel p s \<longrightarrow> length p < length s)
   \<and> cleanTestName '''' = Some ''''"
  by (simp add: cleanTestName_returns cleanTestName_dom_all cleanTestName_rel_shorter
      cleanTestName_Nil)

text \<open>
  C9 on \<open>a/b/\<close>, whose recursive call is on \<open>a/b\<close>.
\<close>

theorem cleanTestName_total_witness:
  "cleanTestName_rel ''a/b'' ''a/b/'' \<and> length ''a/b'' < length ''a/b/''
   \<and> cleanTestName ''a/b/'' = Some ''b''"
proof -
  have call: "cleanTestName_rel ''a/b'' ''a/b/''"
    by (rule cleanTestName_rel.intros(1) [of "LastIndex ''a/b/'' slash"])
      (simp_all add: slash_def slice_to_def)
  have "cleanTestName ''a/b/'' = Some ''b''"
    by (simp add: cleanTestName_step after_rightmost_def)
  with call cleanTestName_total [of "''a/b/''"] show ?thesis by blast
qed

subsection \<open>C10: the selection is a set\<close>

text \<open>
  C10. Two selections with the same set of identifiers give the same list of failures
  for every task, and two requests for the same task that carry them make the handler do
  the same thing: the same summary, the same description, the same request.
\<close>

theorem selection_is_a_set:
  assumes "set ids1 = set ids2"
  shows "failedTests t (selectedIds ids1) (TestResults t) [] =
           failedTests t (selectedIds ids2) (TestResults t) []
         \<and> (TaskId input1 = TaskId input2 \<and> TestIds input1 = ids1 \<and> TestIds input2 = ids2 \<longrightarrow>
              fileTicket bbp tmpl input1 = fileTicket bbp tmpl input2)"
proof -
  have same: "\<And>t. failedTests t (selectedIds ids1) (TestResults t) [] =
           failedTests t (selectedIds ids2) (TestResults t) []"
    using assms by (simp add: failedTests_selected)
  have "fileTicket bbp tmpl input1 = fileTicket bbp tmpl input2"
    if "TaskId input1 = TaskId input2" and "TestIds input1 = ids1" and "TestIds input2 = ids2"
    unfolding fileTicket_def Let_def that same by (rule refl)
  with same show ?thesis by simp
qed

text \<open>
  C10 on the scenario, with \<open>bar.js\<close> selected twice and the order changed.
\<close>

theorem selection_is_a_set_witness:
  "set [''bar.js'', ''dir/foo.js'', ''bar.js''] = set [''dir/foo.js'', ''bar.js'']
   \<and> failedTests scenario_task (selectedIds [''bar.js'', ''dir/foo.js'', ''bar.js''])
         (TestResults scenario_task) []
       = Some scenario_tests
   \<and> fileTicket scenario_collaborators DescriptionTemplate
         \<lparr>TaskId = ''123'', TestIds = [''bar.js'', ''dir/foo.js'', ''bar.js'']\<rparr>
       = fileTicket scenario_collaborators DescriptionTemplate scenario_input"
proof -
  have eq: "set [''bar.js'', ''dir/foo.js'', ''bar.js''] = set [''dir/foo.js'', ''bar.js'']"
    by auto
  note same = selection_is_a_set [OF eq, of scenario_task
      "\<lparr>TaskId = ''123'', TestIds = [''bar.js'', ''dir/foo.js'', ''bar.js'']\<rparr>"
      scenario_input scenario_collaborators DescriptionTemplate]
  from same scenario_failedTests
  have "failedTests scenario_task (selectedIds [''bar.js'', ''dir/foo.js'', ''bar.js''])
         (TestResults scenario_task) [] = Some scenario_tests"
    by (simp add: scenario_input_def)
  moreover from same
  have "fileTicket scenario_collaborators DescriptionTemplate
         \<lparr>TaskId = ''123'', TestIds = [''bar.js'', ''dir/foo.js'', ''bar.js'']\<rparr>
       = fileTicket scenario_collaborators DescriptionTemplate scenario_input"
    by (simp add: scenario_input_def)
  ultimately show ?thesis using eq by blast
qed

end
